theory Spec2Isabelle
  imports Main "HOL-Library.Sublist"
begin

section \<open>Values and collaborators of main.py\<close>

text \<open>
  The program is a Streamlit script. Its two functions with state are
  \<^verbatim>\<open>extract_text_from_pdf\<close> (memoised by the decorator \<^verbatim>\<open>@st.cache_data\<close>) and
  \<^verbatim>\<open>chatbot\<close> (which keeps \<^verbatim>\<open>st.session_state.conversation_history\<close>);
  \<^verbatim>\<open>generate_text\<close> loops over the uploaded files and calls the remote model.

  A Python exception is a value: \<open>Exception m\<close> stands for an instance of Python's
  \<^verbatim>\<open>Exception\<close> whose \<^verbatim>\<open>str(e)\<close> is \<open>m\<close>. A computation that may raise returns
  \<open>exn + 'a\<close>, \<open>Inl e\<close> being the raise.
\<close>

datatype exn = Exception string

fun str_exn :: "exn \<Rightarrow> string" where
  "str_exn (Exception m) = m"

text \<open>Isabelle characters are bytes, so a byte string is a list of characters.\<close>

type_synonym bytes = "char list"

text \<open>
  An uploaded file: the object that \<^verbatim>\<open>st.file_uploader\<close> returns, with its file
  name, the position of its stream (\<^verbatim>\<open>uploaded_file.tell()\<close>) when it is handed to
  the script, and the bytes that \<^verbatim>\<open>uploaded_file.getvalue()\<close> gives. The page builds
  the objects anew on every run, at position 0, and the script hands each of them to
  the extraction once.
\<close>

record uploaded_file =
  name :: string
  tell :: nat
  getvalue :: bytes

text \<open>An entry of the conversation history: \<^verbatim>\<open>{"role": ..., "message": ...}\<close>.\<close>

record turn =
  role :: string
  message :: string

text \<open>
  The elements the functions put on the page: \<^verbatim>\<open>st.error(msg)\<close>,
  \<^verbatim>\<open>st.text_area(label, value, height=300)\<close> and \<^verbatim>\<open>st.markdown(body)\<close>.
\<close>

datatype element = Error string | Text_area string string | Markdown string

text \<open>
  The collaborators, whose code is outside the repository:
  \<^item> \<open>arg_key\<close>: the key under which \<^verbatim>\<open>@st.cache_data\<close> files a call, computed by the
    decorator from the argument object before the body runs;
  \<^item> \<open>md5_hexdigest b\<close>: \<^verbatim>\<open>hashlib.md5(b).hexdigest()\<close>;
  \<^item> \<open>PdfReader f\<close>: \<^verbatim>\<open>PdfReader(f).pages\<close>, each page given by the outcome of its
    \<^verbatim>\<open>extract_text()\<close>;
  \<^item> \<open>generate_content p\<close>: \<^verbatim>\<open>model.generate_content([p], stream=True)\<close>, resolved, and
    its \<^verbatim>\<open>.text\<close>.
  Each of the last three may raise.
\<close>

record 'k collaborators =
  arg_key :: "uploaded_file \<Rightarrow> 'k"
  md5_hexdigest :: "bytes \<Rightarrow> exn + string"
  PdfReader :: "uploaded_file \<Rightarrow> exn + (exn + string) list"
  generate_content :: "string \<Rightarrow> exn + string"

text \<open>
  The state of one session: the store of \<^verbatim>\<open>@st.cache_data\<close> for
  \<^verbatim>\<open>extract_text_from_pdf\<close>, the entry \<^verbatim>\<open>conversation_history\<close> of
  \<^verbatim>\<open>st.session_state\<close> (\<open>None\<close> while the key is absent), the elements shown so far,
  and two logs of the calls made to the collaborators: the files handed to
  \<^verbatim>\<open>PdfReader\<close> and the prompts handed to \<^verbatim>\<open>model.generate_content\<close>.

  An entry of the store holds the value a run of the body returned and the record of
  the elements that run drew on the page. The body draws nothing but the
  \<^verbatim>\<open>st.error\<close> of its handler, so the record is kept as the list of the exceptions
  shown that way.
\<close>

record 'k session =
  cache_data :: "'k \<rightharpoonup> ((string option \<times> string option) \<times> exn list)"
  conversation_history :: "turn list option"
  elements :: "element list"
  reader_calls :: "uploaded_file list"
  generate_calls :: "string list"

definition init_session :: "'k session" where
  "init_session = \<lparr>cache_data = Map.empty, conversation_history = None, elements = [],
     reader_calls = [], generate_calls = []\<rparr>"

definition st_error :: "string \<Rightarrow> 'k session \<Rightarrow> 'k session" where
  "st_error msg s = s\<lparr>elements := elements s @ [Error msg]\<rparr>"

section \<open>Python string operations\<close>

text \<open>\<^verbatim>\<open>sep.join(xs)\<close>.\<close>

fun str_join :: "string \<Rightarrow> string list \<Rightarrow> string" where
  "str_join sep [] = []"
| "str_join sep [x] = x"
| "str_join sep (x # y # ys) = x @ sep @ str_join sep (y # ys)"

text \<open>
  \<^verbatim>\<open>s.strip()\<close>: leading and trailing whitespace removed. On code points below 256
  Python's whitespace is 9 to 13, 28 to 32, 133 and 160.
\<close>

definition isspace :: "char \<Rightarrow> bool" where
  "isspace c = ((of_char c :: nat) \<in> {9, 10, 11, 12, 13, 28, 29, 30, 31, 32, 133, 160})"

definition strip :: "string \<Rightarrow> string" where
  "strip s = rev (dropWhile isspace (rev (dropWhile isspace s)))"

section \<open>The chatbot\<close>

text \<open>\<^verbatim>\<open>f"{entry['role']}: {entry['message']}"\<close>\<close>

definition entry_line :: "turn \<Rightarrow> string" where
  "entry_line entry = role entry @ '': '' @ message entry"

text \<open>
  \<^verbatim>\<open>"\n".join([f"{entry['role']}: {entry['message']}" for entry in
  st.session_state.conversation_history])\<close>
\<close>

definition conversation_context :: "turn list \<Rightarrow> string" where
  "conversation_context history = str_join ''\<newline>'' (map entry_line history)"

text \<open>The history as the script reads it: empty while the key is absent.\<close>

definition history_of :: "'k session \<Rightarrow> turn list" where
  "history_of s = (case conversation_history s of None \<Rightarrow> [] | Some h \<Rightarrow> h)"

text \<open>
  \<^verbatim>\<open>chatbot(user_input)\<close>: the history is created when absent, the user's turn is
  appended, the prompt is the rendered history followed by \<^verbatim>\<open>"\nBot:"\<close>. Inside the
  \<^verbatim>\<open>try\<close> the model is called; on success the stripped answer is appended as a Bot
  turn and returned, on any exception the error is shown and the fixed apology is
  returned.
\<close>

definition chatbot :: "'k collaborators \<Rightarrow> string \<Rightarrow> 'k session \<Rightarrow> string \<times> 'k session" where
  "chatbot env user_input s =
    (let h0 = (case conversation_history s of None \<Rightarrow> [] | Some h \<Rightarrow> h);
         h1 = h0 @ [\<lparr>role = ''User'', message = user_input\<rparr>];
         prompt = conversation_context h1 @ ''\<newline>Bot:'';
         s1 = s\<lparr>conversation_history := Some h1,
                generate_calls := generate_calls s @ [prompt]\<rparr>
     in case generate_content env prompt of
          Inr text \<Rightarrow>
            (let bot_response = strip text
             in (bot_response,
                 s1\<lparr>conversation_history := Some (h1 @ [\<lparr>role = ''Bot'', message = bot_response\<rparr>])\<rparr>))
        | Inl e \<Rightarrow>
            (''Sorry, I couldn't process that request.'',
             st_error (''Error with chatbot: '' @ str_exn e) s1))"

section \<open>Text extraction behind the memoising decorator\<close>

text \<open>\<^verbatim>\<open>hash_pdf(uploaded_file)\<close>: the MD5 digest of the file's bytes, in hexadecimal.\<close>

definition hash_pdf :: "'k collaborators \<Rightarrow> uploaded_file \<Rightarrow> exn + string" where
  "hash_pdf env uploaded_file = md5_hexdigest env (getvalue uploaded_file)"

text \<open>
  \<^verbatim>\<open>[page.extract_text() for page in pdf_reader.pages]\<close>: the pages in order; the
  first page that raises ends the comprehension with its exception.
\<close>

fun extract_pages :: "(exn + string) list \<Rightarrow> exn + string list" where
  "extract_pages [] = Inr []"
| "extract_pages (page # pages) =
     (case page of
        Inl e \<Rightarrow> Inl e
      | Inr t \<Rightarrow> (case extract_pages pages of Inl e \<Rightarrow> Inl e | Inr ts \<Rightarrow> Inr (t # ts)))"

text \<open>
  The \<^verbatim>\<open>try\<close> block of \<^verbatim>\<open>extract_text_from_pdf\<close>: the hash first, then the reader
  (logged as a call of the extraction collaborator), then the pages, and the pair
  \<^verbatim>\<open>("".join(text_lines), file_hash)\<close>.
\<close>

definition extract_try ::
  "'k collaborators \<Rightarrow> uploaded_file \<Rightarrow> 'k session \<Rightarrow> (exn + (string \<times> string)) \<times> 'k session" where
  "extract_try env uploaded_file s =
    (case hash_pdf env uploaded_file of
       Inl e \<Rightarrow> (Inl e, s)
     | Inr file_hash \<Rightarrow>
         (let s1 = s\<lparr>reader_calls := reader_calls s @ [uploaded_file]\<rparr>
          in case PdfReader env uploaded_file of
               Inl e \<Rightarrow> (Inl e, s1)
             | Inr pages \<Rightarrow>
                 (case extract_pages pages of
                    Inl e \<Rightarrow> (Inl e, s1)
                  | Inr text_lines \<Rightarrow> (Inr (concat text_lines, file_hash), s1))))"

text \<open>
  The body of \<^verbatim>\<open>extract_text_from_pdf\<close>: the \<^verbatim>\<open>try\<close> block with its handler
  \<^verbatim>\<open>except Exception as e\<close>, which shows the error and returns \<^verbatim>\<open>(None, None)\<close>.
\<close>

definition extract_text_from_pdf_body ::
  "'k collaborators \<Rightarrow> uploaded_file \<Rightarrow> 'k session
     \<Rightarrow> (exn + (string option \<times> string option)) \<times> 'k session" where
  "extract_text_from_pdf_body env uploaded_file s =
    (case extract_try env uploaded_file s of
       (Inr (text, file_hash), s1) \<Rightarrow> (Inr (Some text, Some file_hash), s1)
     | (Inl e, s1) \<Rightarrow> (Inr (None, None), st_error (''Error reading PDF: '' @ str_exn e) s1))"

text \<open>
  What a run of the body draws on the page, as the decorator records it: the exception
  of the handler's \<^verbatim>\<open>st.error\<close> when the \<^verbatim>\<open>try\<close> block raises, nothing otherwise.
\<close>

definition body_shown :: "'k collaborators \<Rightarrow> uploaded_file \<Rightarrow> 'k session \<Rightarrow> exn list" where
  "body_shown env uploaded_file s =
    (case fst (extract_try env uploaded_file s) of Inl e \<Rightarrow> [e] | Inr r \<Rightarrow> [])"

text \<open>
  \<^verbatim>\<open>extract_text_from_pdf\<close> as its callers see it, under \<^verbatim>\<open>@st.cache_data\<close>. The
  decorator looks the argument's key up in its store. On a hit the body does not run:
  the stored value is returned, and the elements recorded with it are drawn on the
  page again. On a miss the body runs, and the value it returns is stored under the
  key together with the record of what it drew; an exception leaving the body would
  pass to the caller with nothing stored.
\<close>

definition extract_text_from_pdf ::
  "'k collaborators \<Rightarrow> uploaded_file \<Rightarrow> 'k session
     \<Rightarrow> (exn + (string option \<times> string option)) \<times> 'k session" where
  "extract_text_from_pdf env uploaded_file s =
    (case cache_data s (arg_key env uploaded_file) of
       Some (v, shown) \<Rightarrow>
         (Inr v,
          s\<lparr>elements := elements s @ map (\<lambda>e. Error (''Error reading PDF: '' @ str_exn e)) shown\<rparr>)
     | None \<Rightarrow>
         (case extract_text_from_pdf_body env uploaded_file s of
            (Inr v, s1) \<Rightarrow>
              (Inr v,
               s1\<lparr>cache_data := (cache_data s1)(arg_key env uploaded_file \<mapsto>
                     (v, body_shown env uploaded_file s))\<rparr>)
          | (Inl e, s1) \<Rightarrow> (Inl e, s1)))"

section \<open>The analysis request\<close>

text \<open>
  The loop of \<^verbatim>\<open>generate_text\<close> over \<^verbatim>\<open>uploaded_files\<close>, carrying
  \<^verbatim>\<open>combined_pdf_text\<close> and \<^verbatim>\<open>file_hashes\<close>. A \<^verbatim>\<open>None\<close> entry is skipped; a text
  that is \<^verbatim>\<open>None\<close> or empty fails the test \<^verbatim>\<open>if pdf_text:\<close> and adds nothing.
\<close>

fun combine_files ::
  "'k collaborators \<Rightarrow> uploaded_file option list \<Rightarrow> string \<times> string option list
     \<Rightarrow> 'k session \<Rightarrow> (exn + (string \<times> string option list)) \<times> 'k session" where
  "combine_files env [] acc s = (Inr acc, s)"
| "combine_files env (None # files) acc s = combine_files env files acc s"
| "combine_files env (Some uploaded_file # files) (combined_pdf_text, file_hashes) s =
     (case extract_text_from_pdf env uploaded_file s of
        (Inl e, s1) \<Rightarrow> (Inl e, s1)
      | (Inr (pdf_text, file_hash), s1) \<Rightarrow>
          (case pdf_text of
             None \<Rightarrow> combine_files env files (combined_pdf_text, file_hashes) s1
           | Some t \<Rightarrow>
               if t \<noteq> []
               then combine_files env files
                      (combined_pdf_text @ t @ ''\<newline>\<newline>'', file_hashes @ [file_hash]) s1
               else combine_files env files (combined_pdf_text, file_hashes) s1))"

text \<open>
  What the extraction gives for a list of uploads, for comparison with the loop: the
  extraction operation is called on each upload that is not \<^verbatim>\<open>None\<close>, in upload
  order, each call in the session the one before left; the values returned are
  collected. \<open>nonempty_texts\<close> keeps the texts of the values that hold one, and of
  these the texts that are not empty.
\<close>

fun extract_all ::
  "'k collaborators \<Rightarrow> uploaded_file option list \<Rightarrow> 'k session
     \<Rightarrow> (string option \<times> string option) list \<times> 'k session" where
  "extract_all env [] s = ([], s)"
| "extract_all env (None # files) s = extract_all env files s"
| "extract_all env (Some uploaded_file # files) s =
     (case extract_text_from_pdf env uploaded_file s of
        (Inl e, s1) \<Rightarrow> ([], s1)
      | (Inr v, s1) \<Rightarrow> (v # fst (extract_all env files s1), snd (extract_all env files s1)))"

definition nonempty_texts :: "(string option \<times> string option) list \<Rightarrow> string list" where
  "nonempty_texts results = filter (\<lambda>t. t \<noteq> []) (List.map_filter fst results)"

text \<open>The prompt of \<^verbatim>\<open>generate_text\<close>: four literals and the f-string, concatenated.\<close>

definition analysis_prompt :: "string \<Rightarrow> string \<Rightarrow> string" where
  "analysis_prompt job_description combined_pdf_text =
     ''Assess candidate fit for the job description. Consider substitutes for skills, experience, match percentage in tabular form:\<newline>\<newline>''
     @ ''Skills: Match or equivalent technologies.\<newline>''
     @ ''Experience: Relevance to key responsibilities.\<newline>''
     @ ''Fit: Suitability based on experience and skills.\<newline>\<newline>''
     @ ''Job Description:\<newline>'' @ job_description
     @ ''\<newline>\<newline>Resume Content:\<newline>'' @ combined_pdf_text"

text \<open>
  \<^verbatim>\<open>generate_text(uploaded_files, job_description)\<close>. With a non-empty combined text
  the text area is shown, the prompt goes to the model and the answer is shown as
  markdown; there is no handler here, so an exception of the model leaves the function.
  With an empty combined text the function ends without doing anything more.
\<close>

definition generate_text ::
  "'k collaborators \<Rightarrow> uploaded_file option list \<Rightarrow> string \<Rightarrow> 'k session
     \<Rightarrow> (exn + unit) \<times> 'k session" where
  "generate_text env uploaded_files job_description s =
    (case combine_files env uploaded_files ([], []) s of
       (Inl e, s1) \<Rightarrow> (Inl e, s1)
     | (Inr (combined_pdf_text, file_hashes), s1) \<Rightarrow>
         if combined_pdf_text \<noteq> []
         then (let s2 = s1\<lparr>elements := elements s1 @ [Text_area ''Extracted Text'' combined_pdf_text]\<rparr>;
                   prompt = analysis_prompt job_description combined_pdf_text;
                   s3 = s2\<lparr>generate_calls := generate_calls s2 @ [prompt]\<rparr>
               in case generate_content env prompt of
                    Inl e \<Rightarrow> (Inl e, s3)
                  | Inr text \<Rightarrow> (Inr (), s3\<lparr>elements := elements s3 @ [Markdown text]\<rparr>))
         else (Inr (), s1))"

text \<open>
  The handler of the Analyze button: \<^verbatim>\<open>if uploaded_files:\<close> holds for a non-empty
  list.
\<close>

definition analyze_button ::
  "'k collaborators \<Rightarrow> uploaded_file option list \<Rightarrow> string \<Rightarrow> 'k session
     \<Rightarrow> (exn + unit) \<times> 'k session" where
  "analyze_button env uploaded_files job_description s =
    (if uploaded_files \<noteq> []
     then generate_text env uploaded_files job_description s
     else (Inr (), st_error ''Please upload at least one PDF file.'' s))"

section \<open>Reachable sessions\<close>

text \<open>
  A session starts with an empty store and no history. The script changes it through
  the chatbot and through the Analyze button, each time with whatever the collaborators
  do at that moment.
\<close>

inductive reachable :: "'k session \<Rightarrow> bool" where
  start: "reachable init_session"
| chat: "reachable s \<Longrightarrow> reachable (snd (chatbot env user_input s))"
| analyze: "reachable s \<Longrightarrow> reachable (snd (analyze_button env uploaded_files job_description s))"

text \<open>
  \<open>evolves s s'\<close>: the session \<open>s'\<close> comes after \<open>s\<close>, by any number of calls of
  the extraction operation, chat turns and Analyze actions.
\<close>

inductive evolves :: "'k session \<Rightarrow> 'k session \<Rightarrow> bool" where
  here: "evolves s s"
| after_extract: "evolves s s' \<Longrightarrow> evolves s (snd (extract_text_from_pdf env uploaded_file s'))"
| after_chat: "evolves s s' \<Longrightarrow> evolves s (snd (chatbot env user_input s'))"
| after_analyze: "evolves s s' \<Longrightarrow>
     evolves s (snd (analyze_button env uploaded_files job_description s'))"

section \<open>Stand-ins for the collaborators\<close>

text \<open>
  Concrete collaborators on which the functions can be run. The key of
  \<open>upload_key\<close> is taken from what Streamlit hashes of an uploaded file: its file
  name, the position of its stream and its bytes. The reader of \<open>demo_env\<close> accepts exactly the files whose bytes start with
  \<^verbatim>\<open>%PDF\<close> and returns one page holding the rest; its model answers every prompt with
  the same text. In \<open>offline_env\<close> the model raises on every prompt.
\<close>

definition upload_key :: "uploaded_file \<Rightarrow> string \<times> nat \<times> bytes" where
  "upload_key uploaded_file = (name uploaded_file, tell uploaded_file, getvalue uploaded_file)"

definition demo_env :: "(string \<times> nat \<times> bytes) collaborators" where
  "demo_env = \<lparr>arg_key = upload_key,
     md5_hexdigest = (\<lambda>b. Inr (''md5-'' @ b)),
     PdfReader = (\<lambda>f. if take 4 (getvalue f) = ''%PDF''
                       then Inr [Inr (drop 4 (getvalue f))]
                       else Inl (Exception ''EOF marker not found'')),
     generate_content = (\<lambda>p. Inr '' hello\<newline>'')\<rparr>"

definition offline_env :: "(string \<times> nat \<times> bytes) collaborators" where
  "offline_env = demo_env\<lparr>generate_content := (\<lambda>p. Inl (Exception ''quota exceeded''))\<rparr>"

text \<open>
  In \<open>broken_env\<close> the reader raises on every file. Two uploads: \<open>cv_upload\<close>,
  and \<open>cv_copy\<close> with the same bytes under another file name; \<open>junk_upload\<close> is
  not a PDF.
\<close>

definition broken_env :: "(string \<times> nat \<times> bytes) collaborators" where
  "broken_env = demo_env\<lparr>PdfReader := (\<lambda>f. Inl (Exception ''stream has ended unexpectedly''))\<rparr>"

definition cv_upload :: uploaded_file where
  "cv_upload = \<lparr>name = ''cv.pdf'', tell = 0, getvalue = ''%PDFpython developer''\<rparr>"

definition cv_copy :: uploaded_file where
  "cv_copy = \<lparr>name = ''copy.pdf'', tell = 0, getvalue = ''%PDFpython developer''\<rparr>"

definition junk_upload :: uploaded_file where
  "junk_upload = \<lparr>name = ''notes.pdf'', tell = 0, getvalue = ''hello''\<rparr>"

text \<open>Two more uploads: a second document, and a PDF without any text.\<close>

definition letter_upload :: uploaded_file where
  "letter_upload = \<lparr>name = ''letter.pdf'', tell = 0, getvalue = ''%PDFdear team''\<rparr>"

definition blank_upload :: uploaded_file where
  "blank_upload = \<lparr>name = ''blank.pdf'', tell = 0, getvalue = ''%PDF''\<rparr>"

section \<open>Properties of the chatbot\<close>

lemma history_of_chatbot_fail:
  "generate_content env (conversation_context (history_of s @ [\<lparr>role = ''User'', message = u\<rparr>])
      @ ''\<newline>Bot:'') = Inl e \<Longrightarrow>
   history_of (snd (chatbot env u s)) = history_of s @ [\<lparr>role = ''User'', message = u\<rparr>]"
  by (simp add: chatbot_def history_of_def st_error_def Let_def)

lemma history_of_chatbot_ok:
  "generate_content env (conversation_context (history_of s @ [\<lparr>role = ''User'', message = u\<rparr>])
      @ ''\<newline>Bot:'') = Inr t \<Longrightarrow>
   history_of (snd (chatbot env u s)) =
     history_of s @ [\<lparr>role = ''User'', message = u\<rparr>, \<lparr>role = ''Bot'', message = strip t\<rparr>]"
  by (simp add: chatbot_def history_of_def Let_def)

lemma chatbot_history_grows:
  "\<exists>rest. history_of (snd (chatbot env u s)) =
      history_of s @ \<lparr>role = ''User'', message = u\<rparr> # rest"
proof (cases "generate_content env
    (conversation_context (history_of s @ [\<lparr>role = ''User'', message = u\<rparr>]) @ ''\<newline>Bot:'')")
  case (Inl e)
  then show ?thesis using history_of_chatbot_fail by fastforce
next
  case (Inr t)
  then show ?thesis using history_of_chatbot_ok by fastforce
qed

text \<open>
  C3. When the generation call of a chat turn raises, the log afterwards is the old log
  with the user's turn appended and nothing else (so no Bot turn for that attempt), and
  the caller gets the fixed apology.
\<close>

theorem chatbot_generation_failure:
  assumes "generate_content env
      (conversation_context (history_of s @ [\<lparr>role = ''User'', message = u\<rparr>]) @ ''\<newline>Bot:'')
      = Inl e"
  shows "history_of (snd (chatbot env u s)) = history_of s @ [\<lparr>role = ''User'', message = u\<rparr>]
       \<and> fst (chatbot env u s) = ''Sorry, I couldn't process that request.''"
proof
  show "history_of (snd (chatbot env u s)) = history_of s @ [\<lparr>role = ''User'', message = u\<rparr>]"
    using assms by (rule history_of_chatbot_fail)
  show "fst (chatbot env u s) = ''Sorry, I couldn't process that request.''"
    using assms by (simp add: chatbot_def history_of_def Let_def)
qed

theorem chatbot_generation_failure_witness:
  "generate_content offline_env
      (conversation_context (history_of (init_session :: (string \<times> nat \<times> bytes) session)
          @ [\<lparr>role = ''User'', message = ''hi''\<rparr>]) @ ''\<newline>Bot:'')
      = Inl (Exception ''quota exceeded'')
   \<and> history_of (snd (chatbot offline_env ''hi'' init_session)) = [\<lparr>role = ''User'', message = ''hi''\<rparr>]
   \<and> fst (chatbot offline_env ''hi'' init_session) = ''Sorry, I couldn't process that request.''"
proof -
  have h: "generate_content offline_env
      (conversation_context (history_of (init_session :: (string \<times> nat \<times> bytes) session)
          @ [\<lparr>role = ''User'', message = ''hi''\<rparr>]) @ ''\<newline>Bot:'')
      = Inl (Exception ''quota exceeded'')"
    by (simp add: offline_env_def demo_env_def)
  have e: "history_of (init_session :: (string \<times> nat \<times> bytes) session) = []"
    by (simp add: history_of_def init_session_def)
  show ?thesis
    using h chatbot_generation_failure [OF h] by (simp add: e)
qed

text \<open>
  C5. The rendering of a log is the lines \<^verbatim>\<open><role>: <message>\<close> of its turns in
  insertion order, joined by a newline: the empty log renders as the empty string,
  and a log with one more turn renders as the rendering of the log before it extended
  by exactly the line of the new turn. The rendering is a function of the log alone,
  so rendering twice with no append in between gives the same string. The log
  User "hi", Bot "hello", User "bye" renders as \<^verbatim>\<open>"User: hi\nBot: hello\nUser: bye"\<close>.
\<close>

theorem conversation_context_renders_log:
  "conversation_context [] = []
   \<and> conversation_context (h @ [t]) =
       (if h = [] then role t @ '': '' @ message t
        else conversation_context h @ ''\<newline>'' @ role t @ '': '' @ message t)
   \<and> conversation_context [\<lparr>role = ''User'', message = ''hi''\<rparr>,
        \<lparr>role = ''Bot'', message = ''hello''\<rparr>, \<lparr>role = ''User'', message = ''bye''\<rparr>]
       = ''User: hi\<newline>Bot: hello\<newline>User: bye''"
proof -
  have snoc: "str_join sep (xs @ [x]) = (if xs = [] then x else str_join sep xs @ sep @ x)"
    for sep x and xs :: "string list"
    by (induction sep xs rule: str_join.induct) simp_all
  show ?thesis
    by (simp add: conversation_context_def entry_line_def snoc)
qed

text \<open>
  C6. The Analyze action with no uploaded file shows the error
  \<^verbatim>\<open>Please upload at least one PDF file.\<close> and does nothing else: no prompt goes to the
  model.
\<close>

theorem analyze_without_files:
  "analyze_button env [] job_description s =
     (Inr (), s\<lparr>elements := elements s @ [Error ''Please upload at least one PDF file.'']\<rparr>)
   \<and> generate_calls (snd (analyze_button env [] job_description s)) = generate_calls s"
  by (simp add: analyze_button_def st_error_def)

section \<open>Properties of the extraction\<close>

lemma extract_try_frame:
  "extract_try env f s = (r, s1) \<Longrightarrow>
     cache_data s1 = cache_data s \<and> conversation_history s1 = conversation_history s
     \<and> elements s1 = elements s \<and> generate_calls s1 = generate_calls s
     \<and> (reader_calls s1 = reader_calls s \<or> reader_calls s1 = reader_calls s @ [f])"
  by (auto simp: extract_try_def Let_def split: sum.splits)

lemma extract_body_cases:
  obtains (ok) t file_hash s1 where "extract_try env f s = (Inr (t, file_hash), s1)"
      and "extract_text_from_pdf_body env f s = (Inr (Some t, Some file_hash), s1)"
  | (failed) e s1 where "extract_try env f s = (Inl e, s1)"
      and "extract_text_from_pdf_body env f s =
             (Inr (None, None), st_error (''Error reading PDF: '' @ str_exn e) s1)"
proof (cases "extract_try env f s")
  case (Pair r s1)
  show ?thesis
  proof (cases r)
    case (Inl e)
    with Pair show ?thesis
      by (intro failed [of e s1]) (simp_all add: extract_text_from_pdf_body_def)
  next
    case (Inr p)
    with Pair show ?thesis
      by (cases p) (auto intro: ok simp: extract_text_from_pdf_body_def)
  qed
qed

lemma extract_body_returns:
  "\<exists>v s1. extract_text_from_pdf_body env f s = (Inr v, s1)"
  by (rule extract_body_cases [of env f s]) auto

lemma extract_hit:
  "cache_data s (arg_key env f) = Some (v, shown) \<Longrightarrow>
   extract_text_from_pdf env f s =
     (Inr v, s\<lparr>elements := elements s @ map (\<lambda>e. Error (''Error reading PDF: '' @ str_exn e)) shown\<rparr>)"
  by (simp add: extract_text_from_pdf_def)

lemma extract_miss:
  "cache_data s (arg_key env f) = None \<Longrightarrow> extract_text_from_pdf_body env f s = (Inr v, s1) \<Longrightarrow>
   extract_text_from_pdf env f s =
     (Inr v, s1\<lparr>cache_data := (cache_data s1)(arg_key env f \<mapsto> (v, body_shown env f s))\<rparr>)"
  by (simp add: extract_text_from_pdf_def)

text \<open>The record the decorator keeps is what the body drew on the page.\<close>

lemma body_shown_drawn:
  "elements (snd (extract_text_from_pdf_body env f s)) =
     elements s @ map (\<lambda>e. Error (''Error reading PDF: '' @ str_exn e)) (body_shown env f s)"
proof (rule extract_body_cases [of env f s])
  fix t file_hash s0
  assume t: "extract_try env f s = (Inr (t, file_hash), s0)"
    and b: "extract_text_from_pdf_body env f s = (Inr (Some t, Some file_hash), s0)"
  from extract_try_frame [OF t] show ?thesis
    by (simp add: b body_shown_def t)
next
  fix e s0
  assume t: "extract_try env f s = (Inl e, s0)"
    and b: "extract_text_from_pdf_body env f s =
           (Inr (None, None), st_error (''Error reading PDF: '' @ str_exn e) s0)"
  from extract_try_frame [OF t] show ?thesis
    by (simp add: b body_shown_def t st_error_def)
qed

lemma extract_returns:
  "\<exists>v s1. extract_text_from_pdf env f s = (Inr v, s1)"
proof (cases "cache_data s (arg_key env f)")
  case None
  obtain v s1 where "extract_text_from_pdf_body env f s = (Inr v, s1)"
    using extract_body_returns by blast
  with None show ?thesis by (simp add: extract_miss)
next
  case (Some c)
  then show ?thesis by (cases c) (simp add: extract_hit)
qed

lemma extract_miss_failed:
  assumes "cache_data s (arg_key env f) = None" and "extract_try env f s = (Inl e, s0)"
  shows "extract_text_from_pdf env f s =
     (Inr (None, None),
      s0\<lparr>elements := elements s @ [Error (''Error reading PDF: '' @ str_exn e)],
         cache_data := (cache_data s)(arg_key env f \<mapsto> ((None, None), [e]))\<rparr>)"
proof -
  have fr: "cache_data s0 = cache_data s" "elements s0 = elements s"
    using extract_try_frame [OF assms(2)] by simp_all
  have "extract_text_from_pdf_body env f s =
      (Inr (None, None), st_error (''Error reading PDF: '' @ str_exn e) s0)"
    using assms(2) by (simp add: extract_text_from_pdf_body_def)
  from extract_miss [OF assms(1) this] show ?thesis
    by (simp add: st_error_def fr body_shown_def assms(2))
qed

text \<open>
  C9. The extraction operation always returns a value to its caller, never an
  exception. On a cache miss, when the fingerprint cannot be computed, or the reader
  rejects the file, or a page fails to give its text, the value is \<^verbatim>\<open>(None, None)\<close>
  and the last element shown is the error \<^verbatim>\<open>Error reading PDF: ...\<close> with the
  exception's text.
\<close>

theorem extract_never_raises:
  "(\<exists>v s1. extract_text_from_pdf env f s = (Inr v, s1))
   \<and> (cache_data s (arg_key env f) = None \<longrightarrow>
        (hash_pdf env f = Inl e
         \<or> (\<exists>h. hash_pdf env f = Inr h \<and> PdfReader env f = Inl e)
         \<or> (\<exists>h pages. hash_pdf env f = Inr h \<and> PdfReader env f = Inr pages
               \<and> extract_pages pages = Inl e)) \<longrightarrow>
        fst (extract_text_from_pdf env f s) = Inr (None, None)
        \<and> elements (snd (extract_text_from_pdf env f s)) =
            elements s @ [Error (''Error reading PDF: '' @ str_exn e)])"
proof (intro conjI impI)
  show "\<exists>v s1. extract_text_from_pdf env f s = (Inr v, s1)"
    by (rule extract_returns)
next
  assume miss: "cache_data s (arg_key env f) = None"
    and bad: "hash_pdf env f = Inl e
         \<or> (\<exists>h. hash_pdf env f = Inr h \<and> PdfReader env f = Inl e)
         \<or> (\<exists>h pages. hash_pdf env f = Inr h \<and> PdfReader env f = Inr pages
               \<and> extract_pages pages = Inl e)"
  from bad obtain s0 where "extract_try env f s = (Inl e, s0)"
    by (auto simp: extract_try_def Let_def)
  from extract_miss_failed [OF miss this]
  show "fst (extract_text_from_pdf env f s) = Inr (None, None)"
    and "elements (snd (extract_text_from_pdf env f s)) =
            elements s @ [Error (''Error reading PDF: '' @ str_exn e)]"
    by simp_all
qed

theorem extract_never_raises_witness:
  "cache_data (init_session :: (string \<times> nat \<times> bytes) session) (arg_key demo_env junk_upload) = None
   \<and> hash_pdf demo_env junk_upload = Inr ''md5-hello''
   \<and> PdfReader demo_env junk_upload = Inl (Exception ''EOF marker not found'')
   \<and> fst (extract_text_from_pdf demo_env junk_upload init_session) = Inr (None, None)
   \<and> elements (snd (extract_text_from_pdf demo_env junk_upload init_session)) =
       [Error ''Error reading PDF: EOF marker not found'']"
proof -
  have miss: "cache_data (init_session :: (string \<times> nat \<times> bytes) session) (arg_key demo_env junk_upload) = None"
    by (simp add: init_session_def)
  have h: "hash_pdf demo_env junk_upload = Inr ''md5-hello''"
    by (simp add: hash_pdf_def demo_env_def junk_upload_def)
  have r: "PdfReader demo_env junk_upload = Inl (Exception ''EOF marker not found'')"
    by (simp add: demo_env_def junk_upload_def)
  have el: "elements (init_session :: (string \<times> nat \<times> bytes) session) = []"
    by (simp add: init_session_def)
  from extract_never_raises [of demo_env junk_upload init_session "Exception ''EOF marker not found''"]
    miss h r
  have "fst (extract_text_from_pdf demo_env junk_upload init_session) = Inr (None, None)
      \<and> elements (snd (extract_text_from_pdf demo_env junk_upload init_session)) =
          elements (init_session :: (string \<times> nat \<times> bytes) session)
            @ [Error (''Error reading PDF: '' @ str_exn (Exception ''EOF marker not found''))]"
    by blast
  with miss h r show ?thesis by (simp add: el)
qed

section \<open>Properties of the analysis request\<close>

lemma extract_frame:
  assumes "extract_text_from_pdf env f s = (r, s1)"
  shows "conversation_history s1 = conversation_history s"
    and "generate_calls s1 = generate_calls s"
    and "\<exists>errs. elements s1 = elements s @ errs
           \<and> list_all (\<lambda>x. \<exists>m. x = Error (''Error reading PDF: '' @ m)) errs"
proof -
  have "conversation_history s1 = conversation_history s \<and> generate_calls s1 = generate_calls s
      \<and> (\<exists>errs. elements s1 = elements s @ errs
           \<and> list_all (\<lambda>x. \<exists>m. x = Error (''Error reading PDF: '' @ m)) errs)"
  proof (cases "cache_data s (arg_key env f)")
    case (Some c)
    obtain v shown where "c = (v, shown)" by (cases c)
    with Some assms have "s1 = s\<lparr>elements := elements s
        @ map (\<lambda>e. Error (''Error reading PDF: '' @ str_exn e)) shown\<rparr>"
      by (simp add: extract_hit)
    moreover have "list_all (\<lambda>x. \<exists>m. x = Error (''Error reading PDF: '' @ m))
        (map (\<lambda>e. Error (''Error reading PDF: '' @ str_exn e)) shown)"
      by (simp add: list_all_iff)
    ultimately show ?thesis by auto
  next
    case None
    show ?thesis
    proof (rule extract_body_cases [of env f s])
      fix t file_hash s0
      assume t: "extract_try env f s = (Inr (t, file_hash), s0)"
        and b: "extract_text_from_pdf_body env f s = (Inr (Some t, Some file_hash), s0)"
      from extract_miss [OF None b] assms extract_try_frame [OF t]
      show ?thesis by auto
    next
      fix e s0
      assume t: "extract_try env f s = (Inl e, s0)"
        and b: "extract_text_from_pdf_body env f s =
               (Inr (None, None), st_error (''Error reading PDF: '' @ str_exn e) s0)"
      from extract_miss [OF None b] assms extract_try_frame [OF t]
      show ?thesis by (auto simp: st_error_def)
    qed
  qed
  then show "conversation_history s1 = conversation_history s"
    and "generate_calls s1 = generate_calls s"
    and "\<exists>errs. elements s1 = elements s @ errs
           \<and> list_all (\<lambda>x. \<exists>m. x = Error (''Error reading PDF: '' @ m)) errs"
    by simp_all
qed

lemma extract_all_frame:
  "conversation_history (snd (extract_all env fs s)) = conversation_history s
   \<and> generate_calls (snd (extract_all env fs s)) = generate_calls s
   \<and> (\<exists>errs. elements (snd (extract_all env fs s)) = elements s @ errs
         \<and> list_all (\<lambda>x. \<exists>m. x = Error (''Error reading PDF: '' @ m)) errs)"
proof (induction fs arbitrary: s)
  case Nil
  then show ?case by simp
next
  case (Cons x fs)
  show ?case
  proof (cases x)
    case None
    with Cons.IH [of s] show ?thesis by simp
  next
    case (Some f)
    obtain v s1 where ex: "extract_text_from_pdf env f s = (Inr v, s1)"
      using extract_returns by blast
    note fr = extract_frame [OF ex]
    from fr(3) obtain errs1 where e1: "elements s1 = elements s @ errs1"
      "list_all (\<lambda>x. \<exists>m. x = Error (''Error reading PDF: '' @ m)) errs1"
      by blast
    from Cons.IH [of s1]
    obtain errs2 where ih: "conversation_history (snd (extract_all env fs s1)) = conversation_history s1"
      "generate_calls (snd (extract_all env fs s1)) = generate_calls s1"
      "elements (snd (extract_all env fs s1)) = elements s1 @ errs2"
      "list_all (\<lambda>x. \<exists>m. x = Error (''Error reading PDF: '' @ m)) errs2"
      by auto
    have "elements (snd (extract_all env fs s1)) = elements s @ (errs1 @ errs2)"
      "list_all (\<lambda>x. \<exists>m. x = Error (''Error reading PDF: '' @ m)) (errs1 @ errs2)"
      using e1 ih by simp_all
    then have "\<exists>errs. elements (snd (extract_all env fs s1)) = elements s @ errs
         \<and> list_all (\<lambda>x. \<exists>m. x = Error (''Error reading PDF: '' @ m)) errs"
      by blast
    then show ?thesis
      using Some ex fr(1,2) ih(1,2) by simp
  qed
qed

lemma combine_files_extract_all:
  "\<exists>hs'. combine_files env fs (c, hs) s =
     (Inr (c @ concat (map (\<lambda>t. t @ ''\<newline>\<newline>'') (nonempty_texts (fst (extract_all env fs s)))), hs'),
      snd (extract_all env fs s))"
proof (induction fs arbitrary: c hs s)
  case Nil
  then show ?case by (simp add: nonempty_texts_def)
next
  case (Cons x fs)
  show ?case
  proof (cases x)
    case None
    with Cons.IH [of c hs s] show ?thesis by simp
  next
    case (Some f)
    obtain pdf_text file_hash s1 where ex: "extract_text_from_pdf env f s = (Inr (pdf_text, file_hash), s1)"
      using extract_returns [of env f s] by auto
    show ?thesis
    proof (cases pdf_text)
      case None
      with Cons.IH [of c hs s1] Some ex show ?thesis
        by (simp add: nonempty_texts_def)
    next
      case (Some t)
      show ?thesis
      proof (cases "t = []")
        case True
        with Cons.IH [of c hs s1] Some \<open>x = Some f\<close> ex show ?thesis
          by (simp add: nonempty_texts_def)
      next
        case False
        with Cons.IH [of "c @ t @ ''\<newline>\<newline>''" "hs @ [file_hash]" s1] Some \<open>x = Some f\<close> ex
        show ?thesis
          by (simp add: nonempty_texts_def)
      qed
    qed
  qed
qed

lemma concat_terminated:
  "concat (map (\<lambda>t. t @ sep) ts) = (if ts = [] then [] else str_join sep ts @ sep)"
  by (induction sep ts rule: str_join.induct) simp_all

lemma generate_text_eq:
  "generate_text env fs jd s =
    (let s1 = snd (extract_all env fs s);
         c = concat (map (\<lambda>t. t @ ''\<newline>\<newline>'') (nonempty_texts (fst (extract_all env fs s))))
     in if c \<noteq> []
        then (let s2 = s1\<lparr>elements := elements s1 @ [Text_area ''Extracted Text'' c]\<rparr>;
                  prompt = analysis_prompt jd c;
                  s3 = s2\<lparr>generate_calls := generate_calls s2 @ [prompt]\<rparr>
              in case generate_content env prompt of
                   Inl e \<Rightarrow> (Inl e, s3)
                 | Inr text \<Rightarrow> (Inr (), s3\<lparr>elements := elements s3 @ [Markdown text]\<rparr>))
        else (Inr (), s1))"
proof -
  obtain hs' where "combine_files env fs ([], []) s =
     (Inr (concat (map (\<lambda>t. t @ ''\<newline>\<newline>'') (nonempty_texts (fst (extract_all env fs s)))), hs'),
      snd (extract_all env fs s))"
    using combine_files_extract_all [of env fs "[]" "[]" s] by auto
  then show ?thesis
    by (simp add: generate_text_def Let_def)
qed

lemma generate_text_history:
  "conversation_history (snd (generate_text env fs jd s)) = conversation_history s"
  using extract_all_frame [of env fs s]
  by (simp add: generate_text_eq Let_def split: sum.splits)

lemma analyze_button_history:
  "history_of (snd (analyze_button env fs jd s)) = history_of s"
  by (simp add: analyze_button_def history_of_def generate_text_history st_error_def)

lemma reachable_first_turn:
  "reachable s \<Longrightarrow> history_of s = [] \<or> role (hd (history_of s)) = ''User''"
proof (induction rule: reachable.induct)
  case start
  then show ?case by (simp add: history_of_def init_session_def)
next
  case (chat s env user_input)
  obtain rest where "history_of (snd (chatbot env user_input s)) =
      history_of s @ \<lparr>role = ''User'', message = user_input\<rparr> # rest"
    using chatbot_history_grows by blast
  with chat.IH show ?case by (cases "history_of s") auto
next
  case (analyze s env uploaded_files job_description)
  then show ?case by (simp add: analyze_button_history)
qed

text \<open>
  C4. In every session the script can reach from the initial one, whose log is empty,
  each Bot turn of the log has a User turn at an earlier position. A chat operation
  leaves the log it found as a proper prefix of the log it leaves behind: turns are
  only added at the end. The Analyze action leaves the log as it is.
\<close>

theorem conversation_log_invariant:
  assumes "reachable s"
  shows "(\<forall>i < length (history_of s). role (history_of s ! i) = ''Bot'' \<longrightarrow>
            (\<exists>j < i. role (history_of s ! j) = ''User''))
     \<and> strict_prefix (history_of s) (history_of (snd (chatbot env user_input s)))
     \<and> history_of (snd (analyze_button env' uploaded_files job_description s)) = history_of s
     \<and> history_of (init_session :: 'k session) = []"
proof (intro conjI allI impI)
  fix i
  assume i: "i < length (history_of s)" and bot: "role (history_of s ! i) = ''Bot''"
  from i have "history_of s \<noteq> []" by auto
  with reachable_first_turn [OF assms] have "role (hd (history_of s)) = ''User''"
    by simp
  with \<open>history_of s \<noteq> []\<close> have 0: "role (history_of s ! 0) = ''User''"
    by (simp add: hd_conv_nth)
  have "i \<noteq> 0"
  proof
    assume "i = 0"
    with bot 0 show False by simp
  qed
  with 0 show "\<exists>j < i. role (history_of s ! j) = ''User''" by auto
next
  obtain rest where "history_of (snd (chatbot env user_input s)) =
      history_of s @ \<lparr>role = ''User'', message = user_input\<rparr> # rest"
    using chatbot_history_grows by blast
  then show "strict_prefix (history_of s) (history_of (snd (chatbot env user_input s)))"
    by (simp add: strict_prefix_def)
next
  show "history_of (snd (analyze_button env' uploaded_files job_description s)) = history_of s"
    by (rule analyze_button_history)
next
  show "history_of (init_session :: 'k session) = []"
    by (simp add: history_of_def init_session_def)
qed

theorem conversation_log_invariant_witness:
  "reachable (snd (chatbot demo_env ''hi'' init_session))
   \<and> history_of (snd (chatbot demo_env ''hi'' init_session)) =
       [\<lparr>role = ''User'', message = ''hi''\<rparr>, \<lparr>role = ''Bot'', message = ''hello''\<rparr>]
   \<and> strict_prefix (history_of (snd (chatbot demo_env ''hi'' init_session)))
       (history_of (snd (chatbot offline_env ''bye'' (snd (chatbot demo_env ''hi'' init_session)))))
   \<and> (\<exists>j < 1. role (history_of (snd (chatbot demo_env ''hi'' init_session)) ! j) = ''User'')"
proof -
  let ?s = "snd (chatbot demo_env ''hi'' (init_session :: (string \<times> nat \<times> bytes) session))"
  have r: "reachable ?s"
    by (intro reachable.intros)
  have h: "history_of ?s = [\<lparr>role = ''User'', message = ''hi''\<rparr>, \<lparr>role = ''Bot'', message = ''hello''\<rparr>]"
    by (simp add: chatbot_def history_of_def init_session_def demo_env_def Let_def strip_def
        isspace_def)
  note inv = conversation_log_invariant [OF r, of offline_env "''bye''"]
  from inv have "strict_prefix (history_of ?s) (history_of (snd (chatbot offline_env ''bye'' ?s)))"
    by blast
  moreover from inv have "1 < length (history_of ?s) \<longrightarrow> role (history_of ?s ! 1) = ''Bot'' \<longrightarrow>
            (\<exists>j < 1. role (history_of ?s ! j) = ''User'')"
    by blast
  then have "\<exists>j < 1. role (history_of ?s ! j) = ''User''"
    by (simp add: h)
  ultimately show ?thesis using r h by simp
qed

text \<open>
  C7. An analysis request sends one prompt when some upload gives a non-empty text.
  The prompt is a fixed heading, the job description, and after
  \<^verbatim>\<open>Resume Content:\<close> the texts the extraction returned for the uploads, in upload
  order, a blank line between one and the next and after the last. An upload whose
  extraction failed or gave the empty string adds nothing.
\<close>

theorem analysis_prompt_holds_texts:
  assumes "texts = nonempty_texts (fst (extract_all env uploaded_files s))"
    and "texts \<noteq> []"
  shows "generate_calls (snd (generate_text env uploaded_files job_description s)) =
           generate_calls s
             @ [analysis_prompt job_description (str_join ''\<newline>\<newline>'' texts @ ''\<newline>\<newline>'')]
     \<and> (\<exists>heading. analysis_prompt job_description (str_join ''\<newline>\<newline>'' texts @ ''\<newline>\<newline>'') =
           heading @ ''Job Description:\<newline>'' @ job_description
             @ ''\<newline>\<newline>Resume Content:\<newline>'' @ str_join ''\<newline>\<newline>'' texts @ ''\<newline>\<newline>'')"
proof
  let ?c = "concat (map (\<lambda>t. t @ ''\<newline>\<newline>'') (nonempty_texts (fst (extract_all env uploaded_files s))))"
  have c: "?c = str_join ''\<newline>\<newline>'' texts @ ''\<newline>\<newline>''"
    using assms by (simp add: concat_terminated)
  then have ne: "?c \<noteq> []" by simp
  have g: "generate_calls (snd (extract_all env uploaded_files s)) = generate_calls s"
    using extract_all_frame [of env uploaded_files s] by simp
  have "generate_calls (snd (generate_text env uploaded_files job_description s)) =
      generate_calls s @ [analysis_prompt job_description ?c]"
    using ne g by (simp add: generate_text_eq Let_def split: sum.splits)
  then show "generate_calls (snd (generate_text env uploaded_files job_description s)) =
           generate_calls s
             @ [analysis_prompt job_description (str_join ''\<newline>\<newline>'' texts @ ''\<newline>\<newline>'')]"
    by (simp only: c)
  show "\<exists>heading. analysis_prompt job_description (str_join ''\<newline>\<newline>'' texts @ ''\<newline>\<newline>'') =
           heading @ ''Job Description:\<newline>'' @ job_description
             @ ''\<newline>\<newline>Resume Content:\<newline>'' @ str_join ''\<newline>\<newline>'' texts @ ''\<newline>\<newline>''"
    unfolding analysis_prompt_def append_assoc [symmetric] by (rule exI) (rule refl)
qed

lemma demo_three_uploads:
  "fst (extract_all demo_env [Some cv_upload, Some junk_upload, None, Some letter_upload]
          (init_session :: (string \<times> nat \<times> bytes) session)) =
     [(Some ''python developer'', Some ''md5-%PDFpython developer''), (None, None),
      (Some ''dear team'', Some ''md5-%PDFdear team'')]"
  by (simp add: extract_text_from_pdf_def extract_text_from_pdf_body_def extract_try_def
      body_shown_def hash_pdf_def demo_env_def cv_upload_def junk_upload_def letter_upload_def upload_key_def
      init_session_def st_error_def Let_def)

theorem analysis_prompt_holds_texts_witness:
  "[''python developer'', ''dear team''] =
      nonempty_texts (fst (extract_all demo_env
         [Some cv_upload, Some junk_upload, None, Some letter_upload]
         (init_session :: (string \<times> nat \<times> bytes) session)))
   \<and> generate_calls (snd (generate_text demo_env
         [Some cv_upload, Some junk_upload, None, Some letter_upload] ''tester''
         (init_session :: (string \<times> nat \<times> bytes) session))) =
       [analysis_prompt ''tester'' ''python developer\<newline>\<newline>dear team\<newline>\<newline>'']"
proof -
  have t: "[''python developer'', ''dear team''] =
      nonempty_texts (fst (extract_all demo_env
         [Some cv_upload, Some junk_upload, None, Some letter_upload]
         (init_session :: (string \<times> nat \<times> bytes) session)))"
    by (simp only: demo_three_uploads) (simp add: nonempty_texts_def)
  have g: "generate_calls (init_session :: (string \<times> nat \<times> bytes) session) = []"
    by (simp add: init_session_def)
  have ne: "[''python developer'', ''dear team''] \<noteq> []"
    by simp
  have "generate_calls (snd (generate_text demo_env
         [Some cv_upload, Some junk_upload, None, Some letter_upload] ''tester''
         (init_session :: (string \<times> nat \<times> bytes) session))) =
      generate_calls (init_session :: (string \<times> nat \<times> bytes) session)
        @ [analysis_prompt ''tester''
             (str_join ''\<newline>\<newline>'' [''python developer'', ''dear team''] @ ''\<newline>\<newline>'')]"
    using analysis_prompt_holds_texts [OF t ne, of "''tester''"] by (rule conjunct1)
  then have "generate_calls (snd (generate_text demo_env
         [Some cv_upload, Some junk_upload, None, Some letter_upload] ''tester''
         (init_session :: (string \<times> nat \<times> bytes) session))) =
       [analysis_prompt ''tester'' ''python developer\<newline>\<newline>dear team\<newline>\<newline>'']"
    by (simp add: g)
  with t show ?thesis by (rule conjI)
qed

text \<open>
  C8. Two uploads, of which one fails extraction (the operation returns
  \<^verbatim>\<open>(None, None)\<close>) and the other gives a non-empty text, in either order: the loop
  goes on to the second upload after the first, and the prompt that is sent holds the
  text of the upload that succeeded.
\<close>

theorem one_failure_keeps_other_text:
  "(extract_text_from_pdf env f1 s = (Inr (None, None), s1)
      \<and> extract_text_from_pdf env f2 s1 = (Inr (Some t, h), s2) \<and> t \<noteq> [] \<longrightarrow>
    generate_calls (snd (generate_text env [Some f1, Some f2] job_description s)) =
      generate_calls s @ [analysis_prompt job_description (t @ ''\<newline>\<newline>'')])
   \<and> (extract_text_from_pdf env f1 s = (Inr (Some t, h), s1)
      \<and> extract_text_from_pdf env f2 s1 = (Inr (None, None), s2) \<and> t \<noteq> [] \<longrightarrow>
    generate_calls (snd (generate_text env [Some f1, Some f2] job_description s)) =
      generate_calls s @ [analysis_prompt job_description (t @ ''\<newline>\<newline>'')])"
proof (intro conjI impI)
  assume a: "extract_text_from_pdf env f1 s = (Inr (None, None), s1)
      \<and> extract_text_from_pdf env f2 s1 = (Inr (Some t, h), s2) \<and> t \<noteq> []"
  then have "generate_calls s2 = generate_calls s"
    using extract_frame(2) [of env f1 s] extract_frame(2) [of env f2 s1] by simp
  with a show "generate_calls (snd (generate_text env [Some f1, Some f2] job_description s)) =
      generate_calls s @ [analysis_prompt job_description (t @ ''\<newline>\<newline>'')]"
    by (simp add: generate_text_def Let_def split: sum.splits)
next
  assume a: "extract_text_from_pdf env f1 s = (Inr (Some t, h), s1)
      \<and> extract_text_from_pdf env f2 s1 = (Inr (None, None), s2) \<and> t \<noteq> []"
  then have "generate_calls s2 = generate_calls s"
    using extract_frame(2) [of env f1 s] extract_frame(2) [of env f2 s1] by simp
  with a show "generate_calls (snd (generate_text env [Some f1, Some f2] job_description s)) =
      generate_calls s @ [analysis_prompt job_description (t @ ''\<newline>\<newline>'')]"
    by (simp add: generate_text_def Let_def split: sum.splits)
qed

lemma demo_extract_junk:
  "extract_text_from_pdf demo_env junk_upload (init_session :: (string \<times> nat \<times> bytes) session) =
     (Inr (None, None),
      init_session\<lparr>reader_calls := [junk_upload],
        elements := [Error ''Error reading PDF: EOF marker not found''],
        cache_data := [upload_key junk_upload \<mapsto>
          ((None, None), [Exception ''EOF marker not found''])]\<rparr>)"
  by (simp add: extract_text_from_pdf_def extract_text_from_pdf_body_def extract_try_def
      body_shown_def hash_pdf_def demo_env_def junk_upload_def init_session_def st_error_def Let_def)

lemma demo_extract_cv:
  "extract_text_from_pdf demo_env cv_upload (init_session :: (string \<times> nat \<times> bytes) session) =
     (Inr (Some ''python developer'', Some ''md5-%PDFpython developer''),
      init_session\<lparr>reader_calls := [cv_upload],
        cache_data := [upload_key cv_upload \<mapsto>
          ((Some ''python developer'', Some ''md5-%PDFpython developer''), [])]\<rparr>)"
  by (simp add: extract_text_from_pdf_def extract_text_from_pdf_body_def extract_try_def
      body_shown_def hash_pdf_def demo_env_def cv_upload_def init_session_def Let_def)

lemma demo_extract_cv_after_junk:
  "fst (extract_text_from_pdf demo_env cv_upload
      (snd (extract_text_from_pdf demo_env junk_upload (init_session :: (string \<times> nat \<times> bytes) session)))) =
     Inr (Some ''python developer'', Some ''md5-%PDFpython developer'')"
  unfolding demo_extract_junk
  by (simp add: extract_text_from_pdf_def extract_text_from_pdf_body_def extract_try_def
      body_shown_def hash_pdf_def demo_env_def cv_upload_def junk_upload_def upload_key_def init_session_def
      Let_def)

lemma demo_extract_junk_after_cv:
  "fst (extract_text_from_pdf demo_env junk_upload
      (snd (extract_text_from_pdf demo_env cv_upload (init_session :: (string \<times> nat \<times> bytes) session)))) =
     Inr (None, None)"
  unfolding demo_extract_cv
  by (simp add: extract_text_from_pdf_def extract_text_from_pdf_body_def extract_try_def
      body_shown_def hash_pdf_def demo_env_def cv_upload_def junk_upload_def upload_key_def init_session_def
      st_error_def Let_def)

theorem one_failure_keeps_other_text_witness:
  "fst (extract_text_from_pdf demo_env junk_upload (init_session :: (string \<times> nat \<times> bytes) session))
      = Inr (None, None)
   \<and> fst (extract_text_from_pdf demo_env cv_upload
        (snd (extract_text_from_pdf demo_env junk_upload (init_session :: (string \<times> nat \<times> bytes) session))))
      = Inr (Some ''python developer'', Some ''md5-%PDFpython developer'')
   \<and> generate_calls (snd (generate_text demo_env [Some junk_upload, Some cv_upload] ''tester''
        (init_session :: (string \<times> nat \<times> bytes) session)))
      = [analysis_prompt ''tester'' ''python developer\<newline>\<newline>'']
   \<and> generate_calls (snd (generate_text demo_env [Some cv_upload, Some junk_upload] ''tester''
        (init_session :: (string \<times> nat \<times> bytes) session)))
      = [analysis_prompt ''tester'' ''python developer\<newline>\<newline>'']"
proof -
  let ?i = "init_session :: (string \<times> nat \<times> bytes) session"
  let ?v = "(Some ''python developer'', Some ''md5-%PDFpython developer'')"
  let ?j = "snd (extract_text_from_pdf demo_env junk_upload ?i)"
  let ?c = "snd (extract_text_from_pdf demo_env cv_upload ?i)"
  have g: "generate_calls ?i = []"
    by (simp add: init_session_def)
  have j1: "extract_text_from_pdf demo_env junk_upload ?i = (Inr (None, None), ?j)"
    by (simp add: demo_extract_junk)
  have c2: "extract_text_from_pdf demo_env cv_upload ?j = (Inr ?v, snd (extract_text_from_pdf demo_env cv_upload ?j))"
    using demo_extract_cv_after_junk by (simp add: prod_eq_iff)
  have c1: "extract_text_from_pdf demo_env cv_upload ?i = (Inr ?v, ?c)"
    by (simp add: demo_extract_cv)
  have j2: "extract_text_from_pdf demo_env junk_upload ?c =
      (Inr (None, None), snd (extract_text_from_pdf demo_env junk_upload ?c))"
    using demo_extract_junk_after_cv by (simp add: prod_eq_iff)
  have ne: "''python developer'' \<noteq> []"
    by simp
  note kept = one_failure_keeps_other_text
  have a: "generate_calls (snd (generate_text demo_env [Some junk_upload, Some cv_upload] ''tester'' ?i))
      = generate_calls ?i @ [analysis_prompt ''tester'' (''python developer'' @ ''\<newline>\<newline>'')]"
    using kept [THEN conjunct1, rule_format, OF conjI [OF j1 conjI [OF c2 ne]]] .
  have b: "generate_calls (snd (generate_text demo_env [Some cv_upload, Some junk_upload] ''tester'' ?i))
      = generate_calls ?i @ [analysis_prompt ''tester'' (''python developer'' @ ''\<newline>\<newline>'')]"
    using kept [THEN conjunct2, rule_format, OF conjI [OF c1 conjI [OF j2 ne]]] .
  have a': "generate_calls (snd (generate_text demo_env [Some junk_upload, Some cv_upload] ''tester'' ?i))
      = [analysis_prompt ''tester'' ''python developer\<newline>\<newline>'']"
    using a by (simp add: g)
  have b': "generate_calls (snd (generate_text demo_env [Some cv_upload, Some junk_upload] ''tester'' ?i))
      = [analysis_prompt ''tester'' ''python developer\<newline>\<newline>'']"
    using b by (simp add: g)
  have j0: "fst (extract_text_from_pdf demo_env junk_upload ?i) = Inr (None, None)"
    by (simp add: demo_extract_junk)
  show ?thesis
    using j0 demo_extract_cv_after_junk a' b' by (intro conjI)
qed

lemma no_text_results:
  "list_all (\<lambda>(pdf_text, file_hash). pdf_text = None \<or> pdf_text = Some []) rs \<Longrightarrow>
   nonempty_texts rs = []"
  by (induction rs) (auto simp: nonempty_texts_def)

text \<open>
  C10. When every upload's extraction returns no text or the empty text, the combined
  text of the loop is empty, \<^verbatim>\<open>generate_text\<close> returns normally without sending a
  prompt to the model, and the only elements it adds to the page are the errors
  \<^verbatim>\<open>Error reading PDF: ...\<close> of the extractions: no text area and no analysis.
\<close>

theorem no_text_no_generation:
  assumes "list_all (\<lambda>(pdf_text, file_hash). pdf_text = None \<or> pdf_text = Some [])
             (fst (extract_all env uploaded_files s))"
  shows "(\<exists>file_hashes. fst (combine_files env uploaded_files ([], []) s) = Inr ([], file_hashes))
     \<and> fst (generate_text env uploaded_files job_description s) = Inr ()
     \<and> generate_calls (snd (generate_text env uploaded_files job_description s)) = generate_calls s
     \<and> (\<exists>errs. elements (snd (generate_text env uploaded_files job_description s)) = elements s @ errs
           \<and> list_all (\<lambda>x. \<exists>m. x = Error (''Error reading PDF: '' @ m)) errs)"
proof -
  have e: "nonempty_texts (fst (extract_all env uploaded_files s)) = []"
    using assms by (rule no_text_results)
  have g: "generate_text env uploaded_files job_description s =
      (Inr (), snd (extract_all env uploaded_files s))"
    by (simp add: generate_text_eq e)
  have "\<exists>file_hashes. fst (combine_files env uploaded_files ([], []) s) = Inr ([], file_hashes)"
    using combine_files_extract_all [of env uploaded_files "[]" "[]" s] by (auto simp: e)
  then show ?thesis
    using extract_all_frame [of env uploaded_files s] by (simp add: g)
qed

theorem no_text_no_generation_witness:
  "list_all (\<lambda>(pdf_text, file_hash). pdf_text = None \<or> pdf_text = Some [])
      (fst (extract_all demo_env [Some junk_upload, Some blank_upload]
         (init_session :: (string \<times> nat \<times> bytes) session)))
   \<and> fst (generate_text demo_env [Some junk_upload, Some blank_upload] ''tester''
        (init_session :: (string \<times> nat \<times> bytes) session)) = Inr ()
   \<and> generate_calls (snd (generate_text demo_env [Some junk_upload, Some blank_upload] ''tester''
        (init_session :: (string \<times> nat \<times> bytes) session))) = []"
proof -
  let ?i = "init_session :: (string \<times> nat \<times> bytes) session"
  have r: "fst (extract_all demo_env [Some junk_upload, Some blank_upload] ?i) =
      [(None, None), (Some [], Some ''md5-%PDF'')]"
    by (simp add: extract_text_from_pdf_def extract_text_from_pdf_body_def extract_try_def
        body_shown_def hash_pdf_def demo_env_def junk_upload_def blank_upload_def upload_key_def
        init_session_def st_error_def Let_def)
  have a: "list_all (\<lambda>(pdf_text, file_hash). pdf_text = None \<or> pdf_text = Some [])
      (fst (extract_all demo_env [Some junk_upload, Some blank_upload] ?i))"
    by (simp only: r) simp
  have g: "generate_calls ?i = []"
    by (simp add: init_session_def)
  from no_text_no_generation [OF a, of "''tester''"]
  have f: "fst (generate_text demo_env [Some junk_upload, Some blank_upload] ''tester'' ?i) = Inr ()"
    and c: "generate_calls (snd (generate_text demo_env [Some junk_upload, Some blank_upload] ''tester'' ?i))
      = generate_calls ?i"
    by blast+
  from c have c': "generate_calls (snd (generate_text demo_env [Some junk_upload, Some blank_upload] ''tester'' ?i))
      = []"
    by (simp only: g)
  show ?thesis
    using a f c' by (intro conjI)
qed

section \<open>Properties of the store\<close>

text \<open>An entry of the store stays: no operation removes or replaces it.\<close>

lemma extract_cache_mono:
  assumes "cache_data s k = Some v"
  shows "cache_data (snd (extract_text_from_pdf env f s)) k = Some v"
proof (cases "cache_data s (arg_key env f)")
  case (Some c)
  with assms show ?thesis by (cases c) (simp add: extract_hit)
next
  case None
  with assms have k: "k \<noteq> arg_key env f" by auto
  show ?thesis
  proof (rule extract_body_cases [of env f s])
    fix t file_hash s0
    assume t: "extract_try env f s = (Inr (t, file_hash), s0)"
      and b: "extract_text_from_pdf_body env f s = (Inr (Some t, Some file_hash), s0)"
    from extract_miss [OF None b] extract_try_frame [OF t] assms k show ?thesis
      by simp
  next
    fix e s0
    assume t: "extract_try env f s = (Inl e, s0)"
      and b: "extract_text_from_pdf_body env f s =
             (Inr (None, None), st_error (''Error reading PDF: '' @ str_exn e) s0)"
    from extract_miss [OF None b] extract_try_frame [OF t] assms k show ?thesis
      by (simp add: st_error_def)
  qed
qed

lemma extract_all_cache_mono:
  "cache_data s k = Some v \<Longrightarrow> cache_data (snd (extract_all env fs s)) k = Some v"
proof (induction fs arbitrary: s)
  case Nil
  then show ?case by simp
next
  case (Cons x fs)
  show ?case
  proof (cases x)
    case None
    with Cons show ?thesis by simp
  next
    case (Some f)
    obtain w s1 where ex: "extract_text_from_pdf env f s = (Inr w, s1)"
      using extract_returns by blast
    have "cache_data s1 k = Some v"
      using extract_cache_mono [OF Cons.prems, of env f] ex by simp
    from Cons.IH [OF this] Some ex show ?thesis by simp
  qed
qed

lemma analyze_button_cache_mono:
  assumes "cache_data s k = Some v"
  shows "cache_data (snd (analyze_button env fs jd s)) k = Some v"
  using extract_all_cache_mono [OF assms, of env fs] assms
  by (simp add: analyze_button_def generate_text_eq st_error_def Let_def split: sum.splits)

lemma chatbot_cache_mono:
  "cache_data s k = Some v \<Longrightarrow> cache_data (snd (chatbot env u s)) k = Some v"
  by (simp add: chatbot_def st_error_def Let_def split: sum.splits)

lemma evolves_cache:
  "evolves s s' \<Longrightarrow> cache_data s k = Some v \<Longrightarrow> cache_data s' k = Some v"
  by (induction rule: evolves.induct)
    (simp_all add: extract_cache_mono chatbot_cache_mono analyze_button_cache_mono)

text \<open>
  An upload that fails, handed to the Analyze action twice in one list: the reader is
  called once, and the page shows the error twice, once drawn by the body and once
  drawn again on the hit.
\<close>

lemma repeated_failure_shows_error_twice:
  "elements (snd (analyze_button demo_env [Some junk_upload, Some junk_upload] ''tester''
       (init_session :: (string \<times> nat \<times> bytes) session))) =
     [Error ''Error reading PDF: EOF marker not found'',
      Error ''Error reading PDF: EOF marker not found'']
   \<and> reader_calls (snd (analyze_button demo_env [Some junk_upload, Some junk_upload] ''tester''
       (init_session :: (string \<times> nat \<times> bytes) session))) = [junk_upload]"
  by (simp add: analyze_button_def generate_text_def extract_text_from_pdf_def
      extract_text_from_pdf_body_def extract_try_def body_shown_def hash_pdf_def demo_env_def
      junk_upload_def upload_key_def init_session_def st_error_def Let_def)

text \<open>
  C1, as the code has it. When the extraction of a file fails on a cache miss, the call
  returns \<^verbatim>\<open>(None, None)\<close> and shows the error \<^verbatim>\<open>Error reading PDF: ...\<close>. The
  decorator stores that pair under the argument's key as it stores any returned value,
  with the error the body drew. A call with the same key in any later session is a
  hit: it returns the stored \<^verbatim>\<open>(None, None)\<close> and draws the stored error again, and
  nothing else of the session changes. The body does not run and extraction is not
  attempted again, whatever the collaborators would do by then.
\<close>

theorem failed_extraction_is_stored:
  assumes "cache_data s (arg_key env f) = None"
    and "fst (extract_try env f s) = Inl e"
    and "evolves (snd (extract_text_from_pdf env f s)) s'"
    and "arg_key env' f = arg_key env f"
  shows "fst (extract_text_from_pdf env f s) = Inr (None, None)
     \<and> elements (snd (extract_text_from_pdf env f s)) =
         elements s @ [Error (''Error reading PDF: '' @ str_exn e)]
     \<and> cache_data (snd (extract_text_from_pdf env f s)) (arg_key env f) = Some ((None, None), [e])
     \<and> extract_text_from_pdf env' f s' =
         (Inr (None, None),
          s'\<lparr>elements := elements s' @ [Error (''Error reading PDF: '' @ str_exn e)]\<rparr>)
     \<and> reader_calls (snd (extract_text_from_pdf env' f s')) = reader_calls s'"
proof -
  obtain s0 where t: "extract_try env f s = (Inl e, s0)"
    using assms(2) by (cases "extract_try env f s") simp
  note first = extract_miss_failed [OF assms(1) t]
  have "cache_data (snd (extract_text_from_pdf env f s)) (arg_key env' f) = Some ((None, None), [e])"
    by (simp add: first assms(4))
  with assms(3) have "cache_data s' (arg_key env' f) = Some ((None, None), [e])"
    by (rule evolves_cache)
  from extract_hit [OF this] show ?thesis
    by (simp add: first)
qed

theorem failed_extraction_is_stored_witness:
  "cache_data (init_session :: (string \<times> nat \<times> bytes) session) (arg_key broken_env cv_upload) = None
   \<and> fst (extract_try broken_env cv_upload (init_session :: (string \<times> nat \<times> bytes) session))
       = Inl (Exception ''stream has ended unexpectedly'')
   \<and> evolves (snd (extract_text_from_pdf broken_env cv_upload init_session))
        (snd (chatbot demo_env ''hi'' (snd (extract_text_from_pdf broken_env cv_upload init_session))))
   \<and> arg_key demo_env cv_upload = arg_key broken_env cv_upload
   \<and> fst (extract_text_from_pdf broken_env cv_upload (init_session :: (string \<times> nat \<times> bytes) session))
       = Inr (None, None)
   \<and> fst (extract_text_from_pdf demo_env cv_upload
        (snd (chatbot demo_env ''hi'' (snd (extract_text_from_pdf broken_env cv_upload init_session)))))
       = Inr (None, None)
   \<and> reader_calls (snd (extract_text_from_pdf demo_env cv_upload
        (snd (chatbot demo_env ''hi'' (snd (extract_text_from_pdf broken_env cv_upload init_session))))))
       = reader_calls
           (snd (chatbot demo_env ''hi'' (snd (extract_text_from_pdf broken_env cv_upload init_session))))"
proof -
  let ?s1 = "snd (extract_text_from_pdf broken_env cv_upload (init_session :: (string \<times> nat \<times> bytes) session))"
  let ?s2 = "snd (chatbot demo_env ''hi'' ?s1)"
  have miss: "cache_data (init_session :: (string \<times> nat \<times> bytes) session) (arg_key broken_env cv_upload) = None"
    by (simp add: init_session_def)
  have bad: "fst (extract_try broken_env cv_upload (init_session :: (string \<times> nat \<times> bytes) session))
       = Inl (Exception ''stream has ended unexpectedly'')"
    by (simp add: extract_try_def hash_pdf_def broken_env_def demo_env_def Let_def)
  have later: "evolves ?s1 ?s2"
    by (intro evolves.intros)
  have key: "arg_key demo_env cv_upload = arg_key broken_env cv_upload"
    by (simp add: broken_env_def demo_env_def)
  note stored = failed_extraction_is_stored [OF miss bad later key]
  from stored
  have 1: "fst (extract_text_from_pdf broken_env cv_upload (init_session :: (string \<times> nat \<times> bytes) session))
       = Inr (None, None)"
    by blast
  from stored have "extract_text_from_pdf demo_env cv_upload ?s2 =
       (Inr (None, None),
        ?s2\<lparr>elements := elements ?s2
           @ [Error (''Error reading PDF: '' @ str_exn (Exception ''stream has ended unexpectedly''))]\<rparr>)"
    by blast
  then have 2: "fst (extract_text_from_pdf demo_env cv_upload ?s2) = Inr (None, None)"
    by simp
  from stored have 3: "reader_calls (snd (extract_text_from_pdf demo_env cv_upload ?s2)) = reader_calls ?s2"
    by blast
  from miss bad later key 1 2 3 show ?thesis
    by (intro conjI)
qed

text \<open>
  The claim C1 as it is written fails on the code. The first call runs while the reader
  is broken and returns \<^verbatim>\<open>(None, None)\<close>. By the second call the reader works, and
  the body would return the text; the call returns the stored \<^verbatim>\<open>(None, None)\<close>,
  the reader is not called again, and the page shows the stored error a second time.
\<close>

theorem failed_extraction_retry_counterexample:
  "fst (extract_text_from_pdf broken_env cv_upload (init_session :: (string \<times> nat \<times> bytes) session))
       = Inr (None, None)
   \<and> fst (extract_text_from_pdf_body demo_env cv_upload
            (snd (extract_text_from_pdf broken_env cv_upload init_session)))
       = Inr (Some ''python developer'', Some ''md5-%PDFpython developer'')
   \<and> fst (extract_text_from_pdf demo_env cv_upload
            (snd (extract_text_from_pdf broken_env cv_upload init_session)))
       = Inr (None, None)
   \<and> reader_calls (snd (extract_text_from_pdf demo_env cv_upload
            (snd (extract_text_from_pdf broken_env cv_upload init_session))))
       = [cv_upload]
   \<and> elements (snd (extract_text_from_pdf demo_env cv_upload
            (snd (extract_text_from_pdf broken_env cv_upload init_session))))
       = [Error ''Error reading PDF: stream has ended unexpectedly'',
          Error ''Error reading PDF: stream has ended unexpectedly'']"
  by (simp add: extract_text_from_pdf_def extract_text_from_pdf_body_def extract_try_def
     body_shown_def  hash_pdf_def broken_env_def demo_env_def cv_upload_def upload_key_def
      init_session_def st_error_def Let_def)

text \<open>
  C2. The claim asks that two uploads of the same bytes reach the reader at most once,
  the store being keyed by the fingerprint of the content. The code computes that
  fingerprint inside the body of the memoised function, where it cannot serve as the
  key; the store is keyed by the decorator's key of the argument object. Run on two
  uploads of the same bytes: under the same file name the second call is a hit and
  the reader is called once; under two file names the keys differ and the reader is
  called for each, although both calls return the same fingerprint.
\<close>

theorem same_bytes_two_names_extracted_twice:
  "getvalue cv_upload = getvalue cv_copy
   \<and> fst (extract_text_from_pdf demo_env cv_upload (init_session :: (string \<times> nat \<times> bytes) session))
       = Inr (Some ''python developer'', Some ''md5-%PDFpython developer'')
   \<and> fst (extract_text_from_pdf demo_env cv_copy
        (snd (extract_text_from_pdf demo_env cv_upload (init_session :: (string \<times> nat \<times> bytes) session))))
       = Inr (Some ''python developer'', Some ''md5-%PDFpython developer'')
   \<and> reader_calls (snd (extract_text_from_pdf demo_env cv_copy
        (snd (extract_text_from_pdf demo_env cv_upload (init_session :: (string \<times> nat \<times> bytes) session)))))
       = [cv_upload, cv_copy]
   \<and> reader_calls (snd (extract_text_from_pdf demo_env cv_upload
        (snd (extract_text_from_pdf demo_env cv_upload (init_session :: (string \<times> nat \<times> bytes) session)))))
       = [cv_upload]"
  by (simp add: extract_text_from_pdf_def extract_text_from_pdf_body_def extract_try_def
     body_shown_def  hash_pdf_def demo_env_def cv_upload_def cv_copy_def upload_key_def
      init_session_def Let_def)

end
